theory Spec2Isabelle
  imports
    Main
    "HOL-Library.Sublist"
    "HOL-Library.AList"
    "HOL-Library.Char_ord"
    "HOL-Library.List_Lexorder"
    "HOL-Library.Product_Lexorder"
begin

section \<open>Core types (src/types/index.ts)\<close>

text \<open>
  A date is the time value of a JavaScript \<open>Date\<close>, milliseconds since the epoch, and a
  Firestore timestamp is the same point in time; \<open>convertDatesToTimestamps\<close> and
  \<open>convertTimestampsToDates\<close> only change the representation and are the identity
  here. A client's \<open>new Date()\<close> is the reading of its clock, a date that Firestore
  accepts.
\<close>

type_synonym timestamp = int

datatype UserRole = ADMIN | REQUESTER | RESPONDER | REVIEWER

datatype PIRStatus = DRAFT | REQUESTED | SUBMITTED | REVIEWED | ACCEPTED | REJECTED

text \<open>The \<open>id\<close> field of \<open>User\<close> is called \<open>user_id\<close> (\<open>id\<close> is the identity function of HOL).\<close>

record User =
  user_id :: string
  email :: string
  displayName :: string
  role :: UserRole
  department :: "string option"

text \<open>
  A stored document carries no \<open>id\<close> field: the repositories write \<open>Omit<T, 'id'>\<close> and
  read \<open>{id: doc.id, ...data}\<close>. The data of an entity is a record, and the entity the
  client holds is the pair of the document id and the data.
\<close>

record QuestionData =
  pirId :: string
  questionText :: string
  category :: string
  required :: bool
  createdAt :: timestamp
  updatedAt :: timestamp
  createdBy :: string
  attachmentIds :: "string list"

type_synonym Question = "string \<times> QuestionData"

datatype ParentType = ParentPIR | ParentQuestion | ParentAnswer

record AttachmentData =
  fileName :: string
  fileType :: string
  fileSize :: nat
  uploadedBy :: string
  uploadedAt :: timestamp
  parentId :: string
  parentType :: ParentType
  downloadUrl :: string

type_synonym Attachment = "string \<times> AttachmentData"

record TagData =
  name :: string
  tagCategory :: "string option"
  color :: "string option"

type_synonym Tag = "string \<times> TagData"

record PIRData =
  title :: string
  description :: string
  status :: PIRStatus
  requesterId :: string
  requesterName :: string
  assignedResponderId :: "string option"
  assignedResponderName :: "string option"
  reviewerId :: "string option"
  reviewerName :: "string option"
  productName :: string
  productCategory :: string
  createdAt :: timestamp
  updatedAt :: timestamp
  submittedAt :: "timestamp option"
  reviewedAt :: "timestamp option"
  acceptedAt :: "timestamp option"
  rejectedAt :: "timestamp option"
  completionDeadline :: "timestamp option"
  tags :: "string list"
  questionIds :: "string list"
  attachmentIds :: "string list"
  comments :: "string option"
  reviewNotes :: "string option"

type_synonym PIR = "string \<times> PIRData"

text \<open>Every \<open>throw new Error(message)\<close> of the source, and every rejection of an external
  service, is a value \<open>Error message\<close>.\<close>

datatype err = Error string

section \<open>The entity store (Firestore)\<close>

text \<open>
  The five collections. Collections that the source only reads and writes by document id
  are maps; the two that it also queries (\<open>tags\<close>, \<open>users\<close>) are association lists
  from document id to data. The store is an in-memory document map: a read or write
  fails only where the SDK or Firestore rejects the request for the data it is given (an
  empty document id, a date out of the range of a timestamp, an update of a document
  that does not exist).
\<close>

record Firestore =
  pirs_col :: "string \<rightharpoonup> PIRData"
  questions_col :: "string \<rightharpoonup> QuestionData"
  attachments_col :: "string \<rightharpoonup> AttachmentData"
  tags_col :: "(string \<times> TagData) list"
  users_col :: "(string \<times> User) list"

text \<open>
  A document id is one segment of a path, so it holds no \<open>/\<close>. The client SDK's
  \<open>doc(db, collection, id)\<close> throws for the empty id, before anything is read: the path
  then has the collection as its only segment.
\<close>

definition invalidDocumentReference :: "string \<Rightarrow> err" where
  "invalidDocumentReference col =
     Error (''Invalid document reference. Document references must have an even number of '' @
            ''segments, but '' @ col @ '' has 1.'')"

definition documentPath :: "string \<Rightarrow> string \<Rightarrow> string" where
  "documentPath col docId =
     ''projects/stacksio-pir-workflow/databases/(default)/documents/'' @ col @ ''/'' @ docId"

fun showNat :: "nat \<Rightarrow> string" where
  "showNat n =
     (if n < 10 then [char_of (48 + n)]
      else showNat (n div 10) @ [char_of (48 + n mod 10)])"

definition showInt :: "int \<Rightarrow> string" where
  "showInt i = (if i < 0 then ''-'' @ showNat (nat (- i)) else showNat (nat i))"

text \<open>Field values of an update: a plain value, or one of the sentinels
  \<open>serverTimestamp()\<close>, \<open>arrayUnion(...)\<close>, \<open>arrayRemove(...)\<close> that the server resolves.\<close>

datatype timeValue = At timestamp | ServerTimestamp

datatype arrayValue = Array "string list" | ArrayUnion "string list" | ArrayRemove "string list"

fun resolveTime :: "timestamp \<Rightarrow> timeValue \<Rightarrow> timestamp" where
  "resolveTime serverTime (At t) = t"
| "resolveTime serverTime ServerTimestamp = serverTime"

text \<open>\<open>arrayUnion\<close> appends, in order, each given element that the array does not hold
  yet; \<open>arrayRemove\<close> removes every occurrence of each given element.\<close>

fun resolveArray :: "arrayValue \<Rightarrow> string list \<Rightarrow> string list" where
  "resolveArray (Array xs) cur = xs"
| "resolveArray (ArrayUnion xs) cur = cur @ filter (\<lambda>x. x \<notin> set cur) (remdups xs)"
| "resolveArray (ArrayRemove xs) cur = filter (\<lambda>x. x \<notin> set xs) cur"

text \<open>
  An update object (\<open>Partial<PIR>\<close>, \<open>Record<string, any>\<close>) is written as the list
  of its field assignments in the order they are made: the entries of the object
  literal, then those of a spread, then later assignments to a key. \<open>objectOf\<close> is the
  object these assignments build: a key keeps the place of its first assignment and the
  value of its last.
\<close>

datatype PIRField =
    Title string
  | Description string
  | Status PIRStatus
  | RequesterId string
  | RequesterName string
  | AssignedResponderId string
  | AssignedResponderName string
  | ReviewerId string
  | ReviewerName string
  | ProductName string
  | ProductCategory string
  | CreatedAt timeValue
  | UpdatedAt timeValue
  | SubmittedAt timeValue
  | ReviewedAt timeValue
  | AcceptedAt timeValue
  | RejectedAt timeValue
  | CompletionDeadline timeValue
  | Tags arrayValue
  | QuestionIds arrayValue
  | AttachmentIds arrayValue
  | Comments string
  | ReviewNotes string

type_synonym PIRUpdates = "PIRField list"

fun setField :: "timestamp \<Rightarrow> PIRField \<Rightarrow> PIRData \<Rightarrow> PIRData" where
  "setField serverTime (Title v) d = d\<lparr>title := v\<rparr>"
| "setField serverTime (Description v) d = d\<lparr>description := v\<rparr>"
| "setField serverTime (Status v) d = d\<lparr>status := v\<rparr>"
| "setField serverTime (RequesterId v) d = d\<lparr>requesterId := v\<rparr>"
| "setField serverTime (RequesterName v) d = d\<lparr>requesterName := v\<rparr>"
| "setField serverTime (AssignedResponderId v) d = d\<lparr>assignedResponderId := Some v\<rparr>"
| "setField serverTime (AssignedResponderName v) d = d\<lparr>assignedResponderName := Some v\<rparr>"
| "setField serverTime (ReviewerId v) d = d\<lparr>reviewerId := Some v\<rparr>"
| "setField serverTime (ReviewerName v) d = d\<lparr>reviewerName := Some v\<rparr>"
| "setField serverTime (ProductName v) d = d\<lparr>productName := v\<rparr>"
| "setField serverTime (ProductCategory v) d = d\<lparr>productCategory := v\<rparr>"
| "setField serverTime (CreatedAt v) d = d\<lparr>createdAt := resolveTime serverTime v\<rparr>"
| "setField serverTime (UpdatedAt v) d = d\<lparr>updatedAt := resolveTime serverTime v\<rparr>"
| "setField serverTime (SubmittedAt v) d = d\<lparr>submittedAt := Some (resolveTime serverTime v)\<rparr>"
| "setField serverTime (ReviewedAt v) d = d\<lparr>reviewedAt := Some (resolveTime serverTime v)\<rparr>"
| "setField serverTime (AcceptedAt v) d = d\<lparr>acceptedAt := Some (resolveTime serverTime v)\<rparr>"
| "setField serverTime (RejectedAt v) d = d\<lparr>rejectedAt := Some (resolveTime serverTime v)\<rparr>"
| "setField serverTime (CompletionDeadline v) d =
     d\<lparr>completionDeadline := Some (resolveTime serverTime v)\<rparr>"
| "setField serverTime (Tags v) d = d\<lparr>tags := resolveArray v (tags d)\<rparr>"
| "setField serverTime (QuestionIds v) d = d\<lparr>questionIds := resolveArray v (questionIds d)\<rparr>"
| "setField serverTime (AttachmentIds v) d =
     d\<lparr>attachmentIds := resolveArray v (attachmentIds d)\<rparr>"
| "setField serverTime (Comments v) d = d\<lparr>comments := Some v\<rparr>"
| "setField serverTime (ReviewNotes v) d = d\<lparr>reviewNotes := Some v\<rparr>"

datatype PIRKey =
    KTitle | KDescription | KStatus | KRequesterId | KRequesterName
  | KAssignedResponderId | KAssignedResponderName | KReviewerId | KReviewerName
  | KProductName | KProductCategory | KCreatedAt | KUpdatedAt | KSubmittedAt
  | KReviewedAt | KAcceptedAt | KRejectedAt | KCompletionDeadline
  | KTags | KQuestionIds | KAttachmentIds | KComments | KReviewNotes

fun keyOf :: "PIRField \<Rightarrow> PIRKey" where
  "keyOf (Title v) = KTitle"
| "keyOf (Description v) = KDescription"
| "keyOf (Status v) = KStatus"
| "keyOf (RequesterId v) = KRequesterId"
| "keyOf (RequesterName v) = KRequesterName"
| "keyOf (AssignedResponderId v) = KAssignedResponderId"
| "keyOf (AssignedResponderName v) = KAssignedResponderName"
| "keyOf (ReviewerId v) = KReviewerId"
| "keyOf (ReviewerName v) = KReviewerName"
| "keyOf (ProductName v) = KProductName"
| "keyOf (ProductCategory v) = KProductCategory"
| "keyOf (CreatedAt v) = KCreatedAt"
| "keyOf (UpdatedAt v) = KUpdatedAt"
| "keyOf (SubmittedAt v) = KSubmittedAt"
| "keyOf (ReviewedAt v) = KReviewedAt"
| "keyOf (AcceptedAt v) = KAcceptedAt"
| "keyOf (RejectedAt v) = KRejectedAt"
| "keyOf (CompletionDeadline v) = KCompletionDeadline"
| "keyOf (Tags v) = KTags"
| "keyOf (QuestionIds v) = KQuestionIds"
| "keyOf (AttachmentIds v) = KAttachmentIds"
| "keyOf (Comments v) = KComments"
| "keyOf (ReviewNotes v) = KReviewNotes"

fun assign :: "PIRField \<Rightarrow> PIRUpdates \<Rightarrow> PIRUpdates" where
  "assign f [] = [f]"
| "assign f (g # gs) = (if keyOf g = keyOf f then f # gs else g # assign f gs)"

definition objectOf :: "PIRUpdates \<Rightarrow> PIRUpdates" where
  "objectOf updates = foldl (\<lambda>obj f. assign f obj) [] updates"

text \<open>
  The date a field assignment carries, if it carries one. The SDK turns each date of an
  update into a timestamp before it sends the write, and the timestamp's constructor
  throws for seconds before the year 1 or after the year 9999.
\<close>

fun dateOf :: "PIRField \<Rightarrow> timestamp option" where
  "dateOf (CreatedAt (At t)) = Some t"
| "dateOf (UpdatedAt (At t)) = Some t"
| "dateOf (SubmittedAt (At t)) = Some t"
| "dateOf (ReviewedAt (At t)) = Some t"
| "dateOf (AcceptedAt (At t)) = Some t"
| "dateOf (RejectedAt (At t)) = Some t"
| "dateOf (CompletionDeadline (At t)) = Some t"
| "dateOf f = None"

definition timestampInRange :: "timestamp \<Rightarrow> bool" where
  "timestampInRange t = (- 62135596800 \<le> t div 1000 \<and> t div 1000 < 253402300800)"

definition rejectedDate :: "PIRUpdates \<Rightarrow> timestamp option" where
  "rejectedDate obj =
     find (\<lambda>t. \<not> timestampInRange t)
       (concat (map (\<lambda>f. case dateOf f of None \<Rightarrow> [] | Some t \<Rightarrow> [t]) obj))"

fun applyUpdates :: "timestamp \<Rightarrow> PIRUpdates \<Rightarrow> PIRData \<Rightarrow> PIRData" where
  "applyUpdates serverTime [] d = d"
| "applyUpdates serverTime (f # fs) d = applyUpdates serverTime fs (setField serverTime f d)"

text \<open>\<open>updateDoc(pirRef, updates)\<close> for a reference \<open>doc(db, 'pirs', id)\<close>: throws for a
  date out of range, the first in the order of the object's keys; is rejected when
  there is no such document; and otherwise merges the fields of the object into the
  stored document.\<close>

definition updateDoc_pirs ::
  "timestamp \<Rightarrow> string \<Rightarrow> PIRUpdates \<Rightarrow> Firestore \<Rightarrow> err + Firestore" where
  "updateDoc_pirs serverTime docId updates db =
     (case rejectedDate (objectOf updates) of
        Some t \<Rightarrow> Inl (Error (''Timestamp seconds out of range: '' @ showInt (t div 1000)))
      | None \<Rightarrow>
          (case pirs_col db docId of
             None \<Rightarrow> Inl (Error (''No document to update: '' @ documentPath ''pirs'' docId))
           | Some d \<Rightarrow>
               Inr (db\<lparr>pirs_col :=
                       (pirs_col db)(docId \<mapsto> applyUpdates serverTime (objectOf updates) d)\<rparr>)))"

section \<open>Lifecycle: status updates (pirRepository.ts, pirSlice.ts, PIRDetail.tsx)\<close>

text \<open>
  A repository operation returns its result, an error or a value, together with the
  store it leaves behind. \<open>serverTime\<close> is the time at which the server commits the
  write, the value every \<open>serverTimestamp()\<close> of that write resolves to.
\<close>

definition statusStamp :: "PIRStatus \<Rightarrow> PIRUpdates \<Rightarrow> PIRUpdates" where
  "statusStamp newStatus updates =
     (case newStatus of
        SUBMITTED \<Rightarrow> updates @ [SubmittedAt ServerTimestamp]
      | REVIEWED \<Rightarrow> updates @ [ReviewedAt ServerTimestamp]
      | ACCEPTED \<Rightarrow> updates @ [AcceptedAt ServerTimestamp]
      | REJECTED \<Rightarrow> updates @ [RejectedAt ServerTimestamp]
      | _ \<Rightarrow> updates)"

definition updatePIRStatus ::
  "timestamp \<Rightarrow> string \<Rightarrow> PIRStatus \<Rightarrow> PIRUpdates \<Rightarrow> Firestore \<Rightarrow> (err + PIR) \<times> Firestore" where
  "updatePIRStatus serverTime docId newStatus additionalData db =
     (if docId = [] then (Inl (invalidDocumentReference ''pirs''), db)
      else
        (case pirs_col db docId of
           None \<Rightarrow> (Inl (Error (''PIR with ID '' @ docId @ '' not found'')), db)
         | Some currentDoc \<Rightarrow>
             (let updates = statusStamp newStatus
                    ([Status newStatus, UpdatedAt ServerTimestamp] @ additionalData)
              in case updateDoc_pirs serverTime docId updates db of
                   Inl e \<Rightarrow> (Inl e, db)
                 | Inr db' \<Rightarrow>
                     (case pirs_col db' docId of
                        None \<Rightarrow> (Inl (Error ''Cannot convert undefined or null to object''), db')
                      | Some updatedData \<Rightarrow> (Inr (docId, updatedData), db')))))"

text \<open>
  The client state: the combined zustand store (the PIR and user slices), the local
  state of the \<open>PIRDetail\<close> component (\<open>isUpdating\<close>, \<open>localError\<close>), and the
  entity store the client talks to.
\<close>

record AppState =
  firestore :: Firestore
  pirs :: "PIR list"
  selectedPIR :: "PIR option"
  isLoading :: bool
  error :: "string option"
  currentUser :: "User option"
  isAuthenticated :: bool
  authError :: "string option"
  isUpdating :: bool
  localError :: "string option"

text \<open>The slice action \<open>updatePIRStatus\<close> of the store (pirSlice.ts).\<close>

definition store_updatePIRStatus ::
  "timestamp \<Rightarrow> string \<Rightarrow> PIRStatus \<Rightarrow> PIRUpdates \<Rightarrow> AppState \<Rightarrow> (err + PIR) \<times> AppState" where
  "store_updatePIRStatus serverTime docId newStatus additionalData s =
     (let s1 = s\<lparr>isLoading := True, error := None\<rparr> in
      case updatePIRStatus serverTime docId newStatus additionalData (firestore s1) of
        (Inr updatedPIR, db') \<Rightarrow>
          (Inr updatedPIR,
           s1\<lparr>firestore := db',
              pirs := map (\<lambda>p. if fst p = docId then updatedPIR else p) (pirs s1),
              selectedPIR :=
                (case selectedPIR s1 of
                   None \<Rightarrow> None
                 | Some sel \<Rightarrow> if fst sel = docId then Some updatedPIR else Some sel),
              isLoading := False\<rparr>)
      | (Inl (Error message), db') \<Rightarrow>
          (Inl (Error message), s1\<lparr>firestore := db', error := Some message, isLoading := False\<rparr>))"

text \<open>
  \<open>handleStatusChange\<close> of \<open>PIRDetail\<close>. \<open>routeId\<close> is the \<open>id\<close> route parameter
  (\<open>string | undefined\<close>; the empty string is falsy as well). The permission check of the
  ACCEPTED/REJECTED case throws inside the \<open>try\<close>, so the \<open>catch\<close> stores the
  message in \<open>localError\<close> and the store action is never called.
\<close>

definition permissionMessage :: string where
  "permissionMessage = ''You do not have permission to accept/reject this PIR''"

definition additionalDataFor :: "PIRStatus \<Rightarrow> PIR \<Rightarrow> User \<Rightarrow> err + PIRUpdates" where
  "additionalDataFor newStatus sel cu =
     (case newStatus of
        REVIEWED \<Rightarrow> Inr [ReviewerId (user_id cu), ReviewerName (displayName cu)]
      | ACCEPTED \<Rightarrow>
          if role cu \<noteq> ADMIN \<and> reviewerId (snd sel) \<noteq> Some (user_id cu)
          then Inl (Error permissionMessage) else Inr []
      | REJECTED \<Rightarrow>
          if role cu \<noteq> ADMIN \<and> reviewerId (snd sel) \<noteq> Some (user_id cu)
          then Inl (Error permissionMessage) else Inr []
      | _ \<Rightarrow> Inr [])"

definition handleStatusChange ::
  "timestamp \<Rightarrow> string option \<Rightarrow> PIRStatus \<Rightarrow> AppState \<Rightarrow> AppState" where
  "handleStatusChange serverTime routeId newStatus s =
     (case routeId of
        None \<Rightarrow> s
      | Some docId \<Rightarrow>
          if docId = [] then s
          else
            (case selectedPIR s of
               None \<Rightarrow> s
             | Some sel \<Rightarrow>
                 (case currentUser s of
                    None \<Rightarrow> s
                  | Some cu \<Rightarrow>
                      (let s1 = s\<lparr>isUpdating := True, localError := None\<rparr> in
                       case additionalDataFor newStatus sel cu of
                         Inl (Error message) \<Rightarrow>
                           s1\<lparr>localError := Some message, isUpdating := False\<rparr>
                       | Inr additionalData \<Rightarrow>
                           (case store_updatePIRStatus serverTime docId newStatus additionalData s1 of
                              (Inr updated, s2) \<Rightarrow> s2\<lparr>isUpdating := False\<rparr>
                            | (Inl (Error message), s2) \<Rightarrow>
                                s2\<lparr>localError := Some message, isUpdating := False\<rparr>)))))"

section \<open>Permissions (PIRDetail.tsx)\<close>

text \<open>The five predicates the detail view computes from the current user and the PIR it
  shows; \<open>currentUser && ...\<close> is false when nobody is signed in.\<close>

definition canEdit :: "User option \<Rightarrow> PIRData \<Rightarrow> bool" where
  "canEdit cu p =
     (case cu of
        None \<Rightarrow> False
      | Some u \<Rightarrow> role u = ADMIN \<or> (user_id u = requesterId p \<and> status p = DRAFT))"

definition canRequest :: "User option \<Rightarrow> PIRData \<Rightarrow> bool" where
  "canRequest cu p =
     (case cu of
        None \<Rightarrow> False
      | Some u \<Rightarrow> status p = DRAFT \<and> (role u = ADMIN \<or> user_id u = requesterId p))"

definition canSubmit :: "User option \<Rightarrow> PIRData \<Rightarrow> bool" where
  "canSubmit cu p =
     (case cu of
        None \<Rightarrow> False
      | Some u \<Rightarrow>
          status p = REQUESTED \<and> (role u = ADMIN \<or> Some (user_id u) = assignedResponderId p))"

definition canReview :: "User option \<Rightarrow> PIRData \<Rightarrow> bool" where
  "canReview cu p =
     (case cu of
        None \<Rightarrow> False
      | Some u \<Rightarrow> status p = SUBMITTED \<and> (role u = ADMIN \<or> role u = REVIEWER))"

definition canAcceptReject :: "User option \<Rightarrow> PIRData \<Rightarrow> bool" where
  "canAcceptReject cu p =
     (case cu of
        None \<Rightarrow> False
      | Some u \<Rightarrow> status p = REVIEWED \<and> (role u = ADMIN \<or> Some (user_id u) = reviewerId p))"



subsection \<open>The specification's transition table and permission resolver\<close>

text \<open>
  The next three definitions follow the words of the specification (sections 4.1 and 4.3),
  not the source: the table of allowed transitions, its column of permitted actors, and
  \<open>resolveActions\<close>. The source has no such table; they are what the code is compared with.
\<close>

definition spec_transitionTable :: "(PIRStatus \<times> PIRStatus) list" where
  "spec_transitionTable =
     [(DRAFT, REQUESTED), (REQUESTED, SUBMITTED), (SUBMITTED, REVIEWED),
      (REVIEWED, ACCEPTED), (REVIEWED, REJECTED)]"

definition spec_permittedActor :: "User \<Rightarrow> PIRData \<Rightarrow> PIRStatus \<Rightarrow> bool" where
  "spec_permittedActor u p target =
     (case target of
        REQUESTED \<Rightarrow> role u = ADMIN \<or> user_id u = requesterId p
      | SUBMITTED \<Rightarrow> role u = ADMIN \<or> Some (user_id u) = assignedResponderId p
      | REVIEWED \<Rightarrow> role u = ADMIN \<or> role u = REVIEWER
      | ACCEPTED \<Rightarrow> role u = ADMIN \<or> Some (user_id u) = reviewerId p
      | REJECTED \<Rightarrow> role u = ADMIN \<or> Some (user_id u) = reviewerId p
      | DRAFT \<Rightarrow> False)"

datatype Action = Edit | Request | Submit | Review | AcceptReject

definition spec_resolveActions :: "User \<Rightarrow> PIRData \<Rightarrow> Action set" where
  "spec_resolveActions u p =
     (if role u = ADMIN \<or> (user_id u = requesterId p \<and> status p = DRAFT) then {Edit} else {}) \<union>
     (if status p = DRAFT \<and> (role u = ADMIN \<or> user_id u = requesterId p) then {Request} else {}) \<union>
     (if status p = REQUESTED \<and> (role u = ADMIN \<or> Some (user_id u) = assignedResponderId p)
      then {Submit} else {}) \<union>
     (if status p = SUBMITTED \<and> (role u = ADMIN \<or> role u = REVIEWER) then {Review} else {}) \<union>
     (if status p = REVIEWED \<and> (role u = ADMIN \<or> Some (user_id u) = reviewerId p)
      then {AcceptReject} else {})"

section \<open>Questions (questionRepository.ts, pirRepository.ts)\<close>

text \<open>
  \<open>addDoc\<close> stores the data under an id that Firestore generates; the generated id is the
  input \<open>newId\<close>. \<open>now\<close> is the client's \<open>new Date()\<close>, which the returned object carries,
  and \<open>serverTime\<close> is what the stored \<open>serverTimestamp()\<close> fields resolve to.
  \<open>question.attachmentIds || []\<close> is \<open>question.attachmentIds\<close>: an array is truthy.
\<close>

definition createQuestion ::
  "string \<Rightarrow> timestamp \<Rightarrow> timestamp \<Rightarrow> QuestionData \<Rightarrow> Firestore \<Rightarrow> (err + Question) \<times> Firestore" where
  "createQuestion newId now serverTime question db =
     (let newQuestion = question\<lparr>QuestionData.createdAt := now, QuestionData.updatedAt := now\<rparr>;
          stored = newQuestion\<lparr>QuestionData.createdAt := serverTime,
                     QuestionData.updatedAt := serverTime\<rparr>
      in (Inr (newId, newQuestion),
          db\<lparr>questions_col := (questions_col db)(newId \<mapsto> stored)\<rparr>))"

definition addQuestionToPIR ::
  "timestamp \<Rightarrow> string \<Rightarrow> string \<Rightarrow> Firestore \<Rightarrow> (err + unit) \<times> Firestore" where
  "addQuestionToPIR serverTime pirDocId questionId db =
     (if pirDocId = [] then (Inl (invalidDocumentReference ''pirs''), db)
      else
        (case updateDoc_pirs serverTime pirDocId
                [QuestionIds (ArrayUnion [questionId]), UpdatedAt ServerTimestamp] db of
           Inl e \<Rightarrow> (Inl e, db)
         | Inr db' \<Rightarrow> (Inr (), db')))"

section \<open>Notifications (functions/src/index.ts)\<close>

text \<open>
  The trigger \<open>onPIRStatusChange\<close> reads the users it needs and calls
  \<open>sendPIRStatusUpdateEmail\<close> at most once; its model returns the parameters of that
  call, or \<open>None\<close> when no call is made, or the error the trigger is rejected with.
  The requester is read with no guard, and the admin SDK's \<open>doc('')\<close> throws, outside
  the \<open>try\<close>; the responder and the reviewer are read only when their id is truthy.
  \<open>filter(Boolean)\<close> drops \<open>undefined\<close> and the empty string. The query for the admins
  returns them in the order of their document ids.
\<close>

record PIRStatusUpdateEmailParams =
  emailStatus :: PIRStatus
  emailPirId :: string
  emailTitle :: string
  emailDescription :: string
  emailProductName :: string
  emailRequesterName :: string
  toEmails :: "string list"

definition invalidResourcePath :: err where
  "invalidResourcePath =
     Error (''Value for argument '' @ [CHR 0x22] @ ''documentPath'' @ [CHR 0x22] @
            '' is not a valid resource path. Path must be a non-empty string.'')"

definition getUser :: "Firestore \<Rightarrow> string \<Rightarrow> err + User option" where
  "getUser db userDocId =
     (if userDocId = [] then Inl invalidResourcePath else Inr (map_of (users_col db) userDocId))"

definition getAssignedUser :: "Firestore \<Rightarrow> string option \<Rightarrow> User option" where
  "getAssignedUser db assigned =
     (case assigned of
        None \<Rightarrow> None
      | Some userDocId \<Rightarrow> if userDocId = [] then None else map_of (users_col db) userDocId)"

definition filterBoolean :: "string option list \<Rightarrow> string list" where
  "filterBoolean xs = concat (map (\<lambda>x. case x of None \<Rightarrow> [] | Some e \<Rightarrow> if e = [] then [] else [e]) xs)"

definition adminEmails :: "Firestore \<Rightarrow> string list" where
  "adminEmails db =
     map (\<lambda>doc. email (snd doc)) (sort_key fst (filter (\<lambda>doc. role (snd doc) = ADMIN) (users_col db)))"

definition emailParams :: "PIRStatus \<Rightarrow> string \<Rightarrow> PIRData \<Rightarrow> string list \<Rightarrow> PIRStatusUpdateEmailParams" where
  "emailParams st docId afterData recipients =
     \<lparr>emailStatus = st, emailPirId = docId, emailTitle = title afterData,
      emailDescription = description afterData, emailProductName = productName afterData,
      emailRequesterName = requesterName afterData, toEmails = recipients\<rparr>"

definition onPIRStatusChange ::
  "Firestore \<Rightarrow> string \<Rightarrow> PIRData \<Rightarrow> PIRData \<Rightarrow> err + PIRStatusUpdateEmailParams option" where
  "onPIRStatusChange db docId beforeData afterData =
     (if status beforeData = status afterData then Inr None
      else
        (case getUser db (requesterId afterData) of
           Inl e \<Rightarrow> Inl e
         | Inr requester \<Rightarrow>
             (let responder = getAssignedUser db (assignedResponderId afterData);
                  reviewer = getAssignedUser db (reviewerId afterData)
              in Inr
                (case status afterData of
                   REQUESTED \<Rightarrow>
                     Some (emailParams REQUESTED docId afterData
                       (case responder of
                          Some r \<Rightarrow> email r # adminEmails db
                        | None \<Rightarrow> adminEmails db))
                 | SUBMITTED \<Rightarrow>
                     (case reviewer of
                        None \<Rightarrow> None
                      | Some rv \<Rightarrow>
                          Some (emailParams SUBMITTED docId afterData
                            (filterBoolean
                               ([Some (email rv), map_option email requester] @
                                map Some (adminEmails db)))))
                 | REVIEWED \<Rightarrow>
                     Some (emailParams REVIEWED docId afterData
                       (filterBoolean [map_option email requester, map_option email responder]))
                 | ACCEPTED \<Rightarrow>
                     Some (emailParams ACCEPTED docId afterData
                       (filterBoolean [map_option email requester, map_option email responder]))
                 | REJECTED \<Rightarrow>
                     Some (emailParams REJECTED docId afterData
                       (filterBoolean [map_option email requester, map_option email responder]))
                 | DRAFT \<Rightarrow> None))))"

text \<open>\<open>sendPIRStatusUpdateEmail\<close> returns without sending when there is no recipient;
  otherwise it hands one message to the mail service, addressed to \<open>toEmails\<close>.\<close>

definition sendPIRStatusUpdateEmail :: "PIRStatusUpdateEmailParams \<Rightarrow> string list option" where
  "sendPIRStatusUpdateEmail params = (if toEmails params = [] then None else Some (toEmails params))"

section \<open>Attachments (attachmentRepository.ts)\<close>

text \<open>
  The blob store is an external service: the model records the calls made to it, in
  order and together with the writes to the \<open>attachments\<close> collection, and takes the
  service's answers as inputs. The fields of a \<open>File\<close> are prefixed (\<open>size\<close> and
  \<open>name\<close> are taken).
\<close>

record File =
  file_name :: string
  file_type :: string
  file_size :: nat

datatype call =
    UploadBytes string
  | GetDownloadURL string
  | AddDoc string
  | DeleteObject string
  | ConsoleWarn
  | DeleteDoc string


record Backend =
  db :: Firestore
  calls :: "call list"

text \<open>What the environment supplies to one upload: the answer of \<open>uploadBytes\<close>
  (\<open>None\<close>: stored), the answer of \<open>getDownloadURL\<close>, \<open>Date.now()\<close>, \<open>new Date()\<close>, the
  server's commit time and the id \<open>addDoc\<close> generates.\<close>

record UploadEnv =
  uploadBytesAnswer :: "err option"
  getDownloadURLAnswer :: "err + string"
  dateNow :: nat
  newDate :: timestamp
  commitTime :: timestamp
  generatedId :: string

definition STORAGE_PATH :: string where
  "STORAGE_PATH = ''attachments''"

definition parentTypeString :: "ParentType \<Rightarrow> string" where
  "parentTypeString pt =
     (case pt of ParentPIR \<Rightarrow> ''pir'' | ParentQuestion \<Rightarrow> ''question'' | ParentAnswer \<Rightarrow> ''answer'')"

text \<open>The template string
  \<^verbatim>\<open>${STORAGE_PATH}/${parentType}/${parentId}/${timestamp}_${file.name}\<close>.\<close>

definition uploadPath :: "UploadEnv \<Rightarrow> File \<Rightarrow> string \<Rightarrow> ParentType \<Rightarrow> string" where
  "uploadPath env file parent pt =
     STORAGE_PATH @ ''/'' @ parentTypeString pt @ ''/'' @ parent @ ''/'' @
       showNat (dateNow env) @ ''_'' @ file_name file"

definition uploadAttachment ::
  "UploadEnv \<Rightarrow> File \<Rightarrow> string \<Rightarrow> string \<Rightarrow> ParentType \<Rightarrow> Backend \<Rightarrow> (err + Attachment) \<times> Backend" where
  "uploadAttachment env file uploader parent pt b =
     (let filePath = uploadPath env file parent pt;
          b1 = b\<lparr>calls := calls b @ [UploadBytes filePath]\<rparr>
      in case uploadBytesAnswer env of
           Some e \<Rightarrow> (Inl e, b1)
         | None \<Rightarrow>
             (let b2 = b1\<lparr>calls := calls b1 @ [GetDownloadURL filePath]\<rparr>
              in case getDownloadURLAnswer env of
                   Inl e \<Rightarrow> (Inl e, b2)
                 | Inr url \<Rightarrow>
                     (let attachmentData =
                            \<lparr>fileName = file_name file, fileType = file_type file,
                             fileSize = file_size file, uploadedBy = uploader,
                             uploadedAt = newDate env, parentId = parent, parentType = pt,
                             downloadUrl = url\<rparr>
                      in (Inr (generatedId env, attachmentData),
                          b2\<lparr>db := (db b2)\<lparr>attachments_col :=
                                  (attachments_col (db b2))
                                    (generatedId env \<mapsto> attachmentData\<lparr>uploadedAt := commitTime env\<rparr>)\<rparr>,
                             calls := calls b2 @ [AddDoc (generatedId env)]\<rparr>))))"



section \<open>Tags (tagRepository.ts)\<close>

text \<open>
  \<open>String.prototype.toLowerCase\<close> is the lower-casing of the JavaScript engine, over
  all of Unicode; it is no code of the repository, so the functions that call it take it
  as the parameter \<open>toLowerCase\<close>, and what is proved of them holds for every
  lower-casing. \<open>string_includes\<close> is the substring test of \<open>String.includes\<close>.
  \<open>getAllTags\<close> orders by name, and Firestore orders documents of equal name by their
  id.
\<close>

definition string_includes :: "string \<Rightarrow> string \<Rightarrow> bool" where
  "string_includes s searchString = sublist searchString s"

definition getAllTags :: "Firestore \<Rightarrow> Tag list" where
  "getAllTags fs = sort_key (\<lambda>doc. (name (snd doc), fst doc)) (tags_col fs)"

definition searchTagsByName ::
  "(string \<Rightarrow> string) \<Rightarrow> string \<Rightarrow> Firestore \<Rightarrow> Tag list" where
  "searchTagsByName toLowerCase searchTerm fs =
     filter (\<lambda>tag. string_includes (toLowerCase (name (snd tag))) (toLowerCase searchTerm))
       (getAllTags fs)"

definition createTag ::
  "(string \<Rightarrow> string) \<Rightarrow> string \<Rightarrow> TagData \<Rightarrow> Firestore \<Rightarrow> (err + Tag) \<times> Firestore" where
  "createTag toLowerCase newId tag fs =
     (case find (\<lambda>t. toLowerCase (name (snd t)) = toLowerCase (name tag))
             (searchTagsByName toLowerCase (name tag) fs) of
        Some exactMatch \<Rightarrow> (Inr exactMatch, fs)
      | None \<Rightarrow> (Inr (newId, tag), fs\<lparr>tags_col := AList.update newId tag (tags_col fs)\<rparr>))"

text \<open>For the examples: on text of ASCII characters only, \<open>toLowerCase\<close> maps the
  letters A to Z to a to z and leaves every other character as it is.\<close>

definition asciiLowerChar :: "char \<Rightarrow> char" where
  "asciiLowerChar c =
     (case map_of (zip ''ABCDEFGHIJKLMNOPQRSTUVWXYZ'' ''abcdefghijklmnopqrstuvwxyz'') c of
        Some l \<Rightarrow> l
      | None \<Rightarrow> c)"

definition asciiLowerCase :: "string \<Rightarrow> string" where
  "asciiLowerCase s = map asciiLowerChar s"

section \<open>The signed-in user (userSlice.ts)\<close>

text \<open>
  \<open>authCurrentUser\<close> is \<open>auth.currentUser\<close>; \<open>email\<close> and \<open>displayName\<close> of a Firebase
  user are \<open>string | null\<close>. \<open>storeFailure\<close> is \<open>Some message\<close> when the \<open>getDoc\<close> or the
  \<open>setDoc\<close> of this call is rejected: the \<open>catch\<close> records the message and nothing is
  written.
\<close>

record FirebaseUser =
  uid :: string
  fbEmail :: "string option"
  fbDisplayName :: "string option"

definition orEmpty :: "string option \<Rightarrow> string" where
  "orEmpty v = (case v of None \<Rightarrow> [] | Some x \<Rightarrow> x)"

definition loadUserData :: "FirebaseUser option \<Rightarrow> string option \<Rightarrow> AppState \<Rightarrow> AppState" where
  "loadUserData authCurrentUser storeFailure s =
     (case authCurrentUser of
        None \<Rightarrow> s\<lparr>currentUser := None, isAuthenticated := False, isLoading := False\<rparr>
      | Some firebaseUser \<Rightarrow>
          (let s1 = s\<lparr>isLoading := True, authError := None\<rparr>
           in case storeFailure of
                Some message \<Rightarrow> s1\<lparr>authError := Some message, isLoading := False\<rparr>
              | None \<Rightarrow>
                  (case map_of (users_col (firestore s1)) (uid firebaseUser) of
                     Some userData \<Rightarrow>
                       s1\<lparr>currentUser := Some userData, isAuthenticated := True, isLoading := False\<rparr>
                   | None \<Rightarrow>
                       (let defaultUserData =
                              \<lparr>user_id = uid firebaseUser,
                               email = orEmpty (fbEmail firebaseUser),
                               displayName = orEmpty (fbDisplayName firebaseUser),
                               role = REQUESTER,
                               department = None\<rparr>
                        in s1\<lparr>firestore := (firestore s1)\<lparr>users_col :=
                                  AList.update (uid firebaseUser) defaultUserData
                                    (users_col (firestore s1))\<rparr>,
                              currentUser := Some defaultUserData,
                              isAuthenticated := True,
                              isLoading := False\<rparr>))))"

section \<open>Example data\<close>

text \<open>A small store: four users, one per role, one PIR, one tag and two attachments. The
  concrete instances below are evaluated on it.\<close>

definition ex_admin :: User where
  "ex_admin = \<lparr>user_id = ''u_adm'', email = ''admin@stacksio.com'', displayName = ''Ada'',
                role = ADMIN, department = None\<rparr>"

definition ex_requester :: User where
  "ex_requester = \<lparr>user_id = ''u_req'', email = ''rita@stacksio.com'', displayName = ''Rita'',
                    role = REQUESTER, department = None\<rparr>"

definition ex_responder :: User where
  "ex_responder = \<lparr>user_id = ''u_res'', email = ''sam@stacksio.com'', displayName = ''Sam'',
                    role = RESPONDER, department = Some ''Lab''\<rparr>"

definition ex_reviewer :: User where
  "ex_reviewer = \<lparr>user_id = ''u_rev'', email = ''vera@stacksio.com'', displayName = ''Vera'',
                   role = REVIEWER, department = None\<rparr>"

definition ex_pir :: PIRData where
  "ex_pir =
     \<lparr>title = ''Cell datasheet'', description = ''Need the datasheet'', status = DRAFT,
      requesterId = ''u_req'', requesterName = ''Rita'',
      assignedResponderId = Some ''u_res'', assignedResponderName = Some ''Sam'',
      reviewerId = None, reviewerName = None,
      productName = ''Cell'', productCategory = ''Battery'',
      createdAt = 1, updatedAt = 1,
      submittedAt = None, reviewedAt = None, acceptedAt = None, rejectedAt = None,
      completionDeadline = None,
      tags = [], questionIds = [], attachmentIds = [],
      comments = None, reviewNotes = None\<rparr>"

definition ex_attachment :: AttachmentData where
  "ex_attachment =
     \<lparr>fileName = ''sheet.pdf'', fileType = ''application/pdf'', fileSize = 2048,
      uploadedBy = ''u_req'', uploadedAt = 2, parentId = ''p1'', parentType = ParentPIR,
      downloadUrl =
        ''https://firebasestorage.googleapis.com/v0/b/stacksio-pir-workflow.appspot.com/o/'' @
        ''attachments%2Fpir%2Fp1%2F1600_sheet.pdf?alt=media''\<rparr>"

text \<open>An attachment record whose locator is no storage URL.\<close>

definition ex_legacy_attachment :: AttachmentData where
  "ex_legacy_attachment = ex_attachment\<lparr>downloadUrl := ''https://blobs/sheet.pdf''\<rparr>"

definition ex_tag :: TagData where
  "ex_tag = \<lparr>name = ''Urgent'', tagCategory = None, color = Some ''red''\<rparr>"

definition ex_store :: Firestore where
  "ex_store =
     \<lparr>pirs_col = [''p1'' \<mapsto> ex_pir],
      questions_col = Map.empty,
      attachments_col = [''a1'' \<mapsto> ex_attachment, ''a3'' \<mapsto> ex_legacy_attachment],
      tags_col = [(''t1'', ex_tag)],
      users_col = [(''u_adm'', ex_admin), (''u_req'', ex_requester),
                   (''u_res'', ex_responder), (''u_rev'', ex_reviewer)]\<rparr>"

text \<open>The client of a signed-in user, showing the stored PIR \<open>p1\<close> in status \<open>st\<close>.\<close>

definition ex_store_in :: "PIRStatus \<Rightarrow> string option \<Rightarrow> Firestore" where
  "ex_store_in st reviewer =
     ex_store\<lparr>pirs_col := [''p1'' \<mapsto> ex_pir\<lparr>status := st, reviewerId := reviewer\<rparr>]\<rparr>"

definition ex_state :: "User \<Rightarrow> PIRStatus \<Rightarrow> string option \<Rightarrow> AppState" where
  "ex_state u st reviewer =
     \<lparr>firestore = ex_store_in st reviewer,
      pirs = [(''p1'', ex_pir\<lparr>status := st, reviewerId := reviewer\<rparr>)],
      selectedPIR = Some (''p1'', ex_pir\<lparr>status := st, reviewerId := reviewer\<rparr>),
      isLoading = False, error = None,
      currentUser = Some u, isAuthenticated = True, authError = None,
      isUpdating = False, localError = None\<rparr>"

definition ex_question :: QuestionData where
  "ex_question =
     \<lparr>pirId = ''p1'', questionText = ''Which chemistry?'', category = ''Technical'',
      required = True, createdAt = 3, updatedAt = 3, createdBy = ''u_req'',
      attachmentIds = []\<rparr>"

definition ex_file :: File where
  "ex_file = \<lparr>file_name = ''sheet.pdf'', file_type = ''application/pdf'', file_size = 2048\<rparr>"

definition ex_upload_env :: "err option \<Rightarrow> (err + string) \<Rightarrow> UploadEnv" where
  "ex_upload_env up url =
     \<lparr>uploadBytesAnswer = up, getDownloadURLAnswer = url, dateNow = 1700, newDate = 4,
      commitTime = 5, generatedId = ''a2''\<rparr>"

definition ex_backend :: Backend where
  "ex_backend = \<lparr>db = ex_store, calls = []\<rparr>"

definition ex_firebase_user :: FirebaseUser where
  "ex_firebase_user = \<lparr>uid = ''u_new'', fbEmail = Some ''nora@stacksio.com'', fbDisplayName = None\<rparr>"

section \<open>Auxiliary facts about the status update\<close>

lemma table_cases:
  "(a, b) \<in> set spec_transitionTable \<longleftrightarrow>
     (a = DRAFT \<and> b = REQUESTED) \<or> (a = REQUESTED \<and> b = SUBMITTED) \<or>
     (a = SUBMITTED \<and> b = REVIEWED) \<or> (a = REVIEWED \<and> b = ACCEPTED) \<or>
     (a = REVIEWED \<and> b = REJECTED)"
  by (auto simp: spec_transitionTable_def)

lemma updatePIRStatus_stored:
  assumes "docId \<noteq> []" and "pirs_col fs docId = Some d"
    and "rejectedDate (objectOf (statusStamp newStatus
           ([Status newStatus, UpdatedAt ServerTimestamp] @ additionalData))) = None"
  shows "updatePIRStatus serverTime docId newStatus additionalData fs =
           (Inr (docId, applyUpdates serverTime
                   (objectOf (statusStamp newStatus
                      ([Status newStatus, UpdatedAt ServerTimestamp] @ additionalData))) d),
            fs\<lparr>pirs_col := (pirs_col fs)(docId \<mapsto> applyUpdates serverTime
                   (objectOf (statusStamp newStatus
                      ([Status newStatus, UpdatedAt ServerTimestamp] @ additionalData))) d)\<rparr>)"
  using assms by (simp add: updatePIRStatus_def updateDoc_pirs_def Let_def)


lemma additionalDataFor_denied:
  assumes "newStatus = ACCEPTED \<or> newStatus = REJECTED"
    and "role cu \<noteq> ADMIN" and "reviewerId (snd sel) \<noteq> Some (user_id cu)"
  shows "additionalDataFor newStatus sel cu = Inl (Error permissionMessage)"
  using assms by (auto simp: additionalDataFor_def)

lemma stamped_object:
  "objectOf (statusStamp newStatus ([Status newStatus, UpdatedAt ServerTimestamp] @
       (if newStatus = REVIEWED then [ReviewerId a, ReviewerName n] else []))) =
     (case newStatus of
        DRAFT \<Rightarrow> [Status DRAFT, UpdatedAt ServerTimestamp]
      | REQUESTED \<Rightarrow> [Status REQUESTED, UpdatedAt ServerTimestamp]
      | SUBMITTED \<Rightarrow> [Status SUBMITTED, UpdatedAt ServerTimestamp, SubmittedAt ServerTimestamp]
      | REVIEWED \<Rightarrow> [Status REVIEWED, UpdatedAt ServerTimestamp, ReviewerId a, ReviewerName n,
                     ReviewedAt ServerTimestamp]
      | ACCEPTED \<Rightarrow> [Status ACCEPTED, UpdatedAt ServerTimestamp, AcceptedAt ServerTimestamp]
      | REJECTED \<Rightarrow> [Status REJECTED, UpdatedAt ServerTimestamp, RejectedAt ServerTimestamp])"
  by (cases newStatus) (simp_all add: objectOf_def statusStamp_def)


lemma handleStatusChange_allowed:
  assumes "routeId = Some docId" and "docId \<noteq> []"
    and "currentUser s = Some u" and "selectedPIR s = Some sel"
    and "additionalDataFor newStatus sel u = Inr extra"
    and "pirs_col (firestore s) docId = Some d"
    and "rejectedDate (objectOf (statusStamp newStatus
           ([Status newStatus, UpdatedAt ServerTimestamp] @ extra))) = None"
  shows "firestore (handleStatusChange serverTime routeId newStatus s) =
           (firestore s)\<lparr>pirs_col := (pirs_col (firestore s))(docId \<mapsto> applyUpdates serverTime
                   (objectOf (statusStamp newStatus
                      ([Status newStatus, UpdatedAt ServerTimestamp] @ extra))) d)\<rparr>
         \<and> localError (handleStatusChange serverTime routeId newStatus s) = None"
  using assms
  by (simp add: handleStatusChange_def store_updatePIRStatus_def Let_def updatePIRStatus_stored)

section \<open>Claims about the lifecycle and the permissions\<close>

text \<open>
  Claim C2. For every transition of the table performed by a permitted actor through
  \<open>handleStatusChange\<close> on the stored PIR that the view shows, the update succeeds and the
  stored document becomes the old one with \<open>status\<close> set to the target, \<open>updatedAt\<close> set
  to the commit time, and exactly the lifecycle timestamp of the target set to the commit
  time: \<open>submittedAt\<close> for SUBMITTED, \<open>reviewedAt\<close> for REVIEWED, \<open>acceptedAt\<close> for
  ACCEPTED, \<open>rejectedAt\<close> for REJECTED, none for REQUESTED. On entering REVIEWED the
  update also names \<open>reviewerId\<close> and \<open>reviewerName\<close>, which become the acting user's.
  Every other field, and every other PIR document, is unchanged.
\<close>

theorem C2_valid_transition_stamps:
  assumes "routeId = Some docId" and "docId \<noteq> []"
    and "currentUser s = Some u"
    and "selectedPIR s = Some (docId, d)"
    and "pirs_col (firestore s) docId = Some d"
    and "(status d, target) \<in> set spec_transitionTable"
    and "spec_permittedActor u d target"
  shows "pirs_col (firestore (handleStatusChange serverTime routeId target s)) =
           (pirs_col (firestore s))(docId \<mapsto>
             (case target of
                DRAFT \<Rightarrow> d
              | REQUESTED \<Rightarrow> d\<lparr>status := REQUESTED, updatedAt := serverTime\<rparr>
              | SUBMITTED \<Rightarrow>
                  d\<lparr>status := SUBMITTED, updatedAt := serverTime, submittedAt := Some serverTime\<rparr>
              | REVIEWED \<Rightarrow>
                  d\<lparr>status := REVIEWED, updatedAt := serverTime,
                    reviewerId := Some (user_id u), reviewerName := Some (displayName u),
                    reviewedAt := Some serverTime\<rparr>
              | ACCEPTED \<Rightarrow>
                  d\<lparr>status := ACCEPTED, updatedAt := serverTime, acceptedAt := Some serverTime\<rparr>
              | REJECTED \<Rightarrow>
                  d\<lparr>status := REJECTED, updatedAt := serverTime, rejectedAt := Some serverTime\<rparr>))
         \<and> localError (handleStatusChange serverTime routeId target s) = None"
proof -
  have "\<exists>extra. additionalDataFor target (docId, d) u = Inr extra \<and>
      extra = (if target = REVIEWED
               then [ReviewerId (user_id u), ReviewerName (displayName u)] else [])"
    using assms(6,7)
    by (auto simp: table_cases additionalDataFor_def spec_permittedActor_def)
  then obtain extra where e: "additionalDataFor target (docId, d) u = Inr extra"
    and ex: "extra = (if target = REVIEWED
                      then [ReviewerId (user_id u), ReviewerName (displayName u)] else [])"
    by blast
  have obj: "objectOf (statusStamp target ([Status target, UpdatedAt ServerTimestamp] @ extra)) =
     (case target of
        DRAFT \<Rightarrow> [Status DRAFT, UpdatedAt ServerTimestamp]
      | REQUESTED \<Rightarrow> [Status REQUESTED, UpdatedAt ServerTimestamp]
      | SUBMITTED \<Rightarrow> [Status SUBMITTED, UpdatedAt ServerTimestamp, SubmittedAt ServerTimestamp]
      | REVIEWED \<Rightarrow> [Status REVIEWED, UpdatedAt ServerTimestamp, ReviewerId (user_id u),
                     ReviewerName (displayName u), ReviewedAt ServerTimestamp]
      | ACCEPTED \<Rightarrow> [Status ACCEPTED, UpdatedAt ServerTimestamp, AcceptedAt ServerTimestamp]
      | REJECTED \<Rightarrow> [Status REJECTED, UpdatedAt ServerTimestamp, RejectedAt ServerTimestamp])"
    unfolding ex by (rule stamped_object)
  have ok: "rejectedDate (objectOf (statusStamp target
              ([Status target, UpdatedAt ServerTimestamp] @ extra))) = None"
    unfolding obj by (cases target) (simp_all add: rejectedDate_def)
  note h = handleStatusChange_allowed[OF assms(1,2,3,4) e assms(5) ok, of serverTime, unfolded obj]
  from assms(6) consider "target = REQUESTED" | "target = SUBMITTED" | "target = REVIEWED"
    | "target = ACCEPTED" | "target = REJECTED"
    by (auto simp: table_cases)
  then show ?thesis
  proof cases
    case 1 then show ?thesis using h by simp
  next
    case 2 then show ?thesis using h by simp
  next
    case 3 then show ?thesis using h by simp
  next
    case 4 then show ?thesis using h by simp
  next
    case 5 then show ?thesis using h by simp
  qed
qed

text \<open>The responder submits the requested PIR \<open>p1\<close> at commit time 9.\<close>

theorem C2_valid_transition_stamps_witness:
  "map_option
     (\<lambda>d. (status d, updatedAt d, submittedAt d, reviewedAt d, acceptedAt d, rejectedAt d,
            reviewerId d))
     (pirs_col (firestore (handleStatusChange 9 (Some ''p1'') SUBMITTED
        (ex_state ex_responder REQUESTED None))) ''p1'')
   = Some (SUBMITTED, 9, Some 9, None, None, None, None)"
  using C2_valid_transition_stamps[of "Some ''p1''" "''p1''"
      "ex_state ex_responder REQUESTED None" ex_responder
      "ex_pir\<lparr>status := REQUESTED, reviewerId := None\<rparr>" SUBMITTED 9]
  by (simp add: ex_state_def ex_store_in_def ex_store_def ex_pir_def ex_responder_def
      spec_transitionTable_def spec_permittedActor_def)

text \<open>
  Claim C3. For a PIR in status REVIEWED, an attempt to move it to ACCEPTED or to
  REJECTED by a user who is neither an admin nor the PIR's reviewer fails with the
  permission error (the message \<open>permissionMessage\<close>, shown as \<open>localError\<close>), and it
  fails before the store is touched: the entity store, and the client's copies of the
  PIR, are unchanged.
\<close>

theorem C3_accept_reject_denied:
  assumes "routeId = Some docId" and "docId \<noteq> []"
    and "selectedPIR s = Some sel" and "status (snd sel) = REVIEWED"
    and "currentUser s = Some u"
    and "role u \<noteq> ADMIN" and "reviewerId (snd sel) \<noteq> Some (user_id u)"
    and "newStatus = ACCEPTED \<or> newStatus = REJECTED"
  shows "localError (handleStatusChange serverTime routeId newStatus s) = Some permissionMessage
       \<and> firestore (handleStatusChange serverTime routeId newStatus s) = firestore s
       \<and> pirs (handleStatusChange serverTime routeId newStatus s) = pirs s
       \<and> selectedPIR (handleStatusChange serverTime routeId newStatus s) = selectedPIR s"
  using assms additionalDataFor_denied[of newStatus u sel]
  by (simp add: handleStatusChange_def)

text \<open>The responder tries to accept the PIR that \<open>u_rev\<close> reviewed.\<close>

theorem C3_accept_reject_denied_witness:
  "localError (handleStatusChange 9 (Some ''p1'') ACCEPTED
      (ex_state ex_responder REVIEWED (Some ''u_rev''))) =
     Some ''You do not have permission to accept/reject this PIR''
   \<and> firestore (handleStatusChange 9 (Some ''p1'') ACCEPTED
        (ex_state ex_responder REVIEWED (Some ''u_rev''))) =
     firestore (ex_state ex_responder REVIEWED (Some ''u_rev''))"
  using C3_accept_reject_denied[of "Some ''p1''" "''p1''"
      "ex_state ex_responder REVIEWED (Some ''u_rev'')"
      "(''p1'', ex_pir\<lparr>status := REVIEWED, reviewerId := Some ''u_rev''\<rparr>)"
      ex_responder ACCEPTED 9]
  by (simp add: ex_state_def ex_responder_def permissionMessage_def)

text \<open>
  Claim C4. For every user and every PIR, each action is in the set that the
  specification's \<open>resolveActions\<close> gives exactly when the corresponding predicate of
  the detail view holds for that user as the current user: Edit and \<open>canEdit\<close>, Request
  and \<open>canRequest\<close>, Submit and \<open>canSubmit\<close>, Review and \<open>canReview\<close>, AcceptReject and
  \<open>canAcceptReject\<close>.
\<close>

theorem C4_permission_predicates:
  "(Edit \<in> spec_resolveActions u p) = canEdit (Some u) p \<and>
   (Request \<in> spec_resolveActions u p) = canRequest (Some u) p \<and>
   (Submit \<in> spec_resolveActions u p) = canSubmit (Some u) p \<and>
   (Review \<in> spec_resolveActions u p) = canReview (Some u) p \<and>
   (AcceptReject \<in> spec_resolveActions u p) = canAcceptReject (Some u) p"
  by (simp add: spec_resolveActions_def canEdit_def canRequest_def canSubmit_def canReview_def
      canAcceptReject_def)





section \<open>Claims about questions and notifications\<close>

lemma addQuestionToPIR_stored:
  assumes "p \<noteq> []" and "pirs_col fs p = Some d"
  shows "addQuestionToPIR serverTime p q fs =
           (Inr (), fs\<lparr>pirs_col := (pirs_col fs)(p \<mapsto>
              d\<lparr>questionIds := (if q \<in> set (questionIds d) then questionIds d else questionIds d @ [q]),
                updatedAt := serverTime\<rparr>)\<rparr>)"
  using assms
  by (simp add: addQuestionToPIR_def updateDoc_pirs_def objectOf_def rejectedDate_def)

text \<open>
  Claim C5, as the code has it. \<open>createQuestion\<close> stores the Question document only:
  it returns the new question, the \<open>questions\<close> collection gains the document under
  the generated id, and nothing else in the store changes; every PIR document,
  \<open>questionIds\<close> included, is as it was. Registration is the separate operation
  \<open>addQuestionToPIR\<close>, which on a stored PIR has idempotent set-union semantics: it
  changes only \<open>questionIds\<close> and \<open>updatedAt\<close> of that PIR, afterwards the id is in
  \<open>questionIds\<close>, exactly once when it occurred at most once before, and a repeated
  call with the same id leaves \<open>questionIds\<close> unchanged.
\<close>

theorem C5_registration_is_separate:
  "createQuestion newId now serverTime question fs =
     (Inr (newId, question\<lparr>QuestionData.createdAt := now, QuestionData.updatedAt := now\<rparr>),
      fs\<lparr>questions_col := (questions_col fs)(newId \<mapsto>
            question\<lparr>QuestionData.createdAt := serverTime,
                     QuestionData.updatedAt := serverTime\<rparr>)\<rparr>)
   \<and> pirs_col (snd (createQuestion newId now serverTime question fs)) = pirs_col fs
   \<and> (p \<noteq> [] \<and> pirs_col fs p = Some d \<longrightarrow>
        (\<exists>fs1 d1. addQuestionToPIR t1 p q fs = (Inr (), fs1)
           \<and> fs1 = fs\<lparr>pirs_col := (pirs_col fs)(p \<mapsto> d1)\<rparr>
           \<and> d1 = d\<lparr>questionIds := (if q \<in> set (questionIds d) then questionIds d
                                     else questionIds d @ [q]),
                     updatedAt := t1\<rparr>
           \<and> q \<in> set (questionIds d1)
           \<and> (count_list (questionIds d) q \<le> 1 \<longrightarrow> count_list (questionIds d1) q = 1)
           \<and> (\<exists>fs2 d2. addQuestionToPIR t2 p q fs1 = (Inr (), fs2) \<and> pirs_col fs2 p = Some d2
                 \<and> questionIds d2 = questionIds d1)))"
proof (intro conjI impI)
  show "createQuestion newId now serverTime question fs =
     (Inr (newId, question\<lparr>QuestionData.createdAt := now, QuestionData.updatedAt := now\<rparr>),
      fs\<lparr>questions_col := (questions_col fs)(newId \<mapsto>
            question\<lparr>QuestionData.createdAt := serverTime,
                     QuestionData.updatedAt := serverTime\<rparr>)\<rparr>)"
    by (simp add: createQuestion_def Let_def)
  show "pirs_col (snd (createQuestion newId now serverTime question fs)) = pirs_col fs"
    by (simp add: createQuestion_def Let_def)
next
  assume a: "p \<noteq> [] \<and> pirs_col fs p = Some d"
  then have n: "p \<noteq> []" and st: "pirs_col fs p = Some d" by simp_all
  define d1 where "d1 = d\<lparr>questionIds := (if q \<in> set (questionIds d) then questionIds d
                                          else questionIds d @ [q]), updatedAt := t1\<rparr>"
  define fs1 where "fs1 = fs\<lparr>pirs_col := (pirs_col fs)(p \<mapsto> d1)\<rparr>"
  have 1: "addQuestionToPIR t1 p q fs = (Inr (), fs1)"
    using addQuestionToPIR_stored[OF n st] by (simp add: fs1_def d1_def)
  have 2: "pirs_col fs1 p = Some d1" by (simp add: fs1_def)
  have 3: "q \<in> set (questionIds d1)" by (simp add: d1_def)
  have 4: "count_list (questionIds d) q \<le> 1 \<longrightarrow> count_list (questionIds d1) q = 1"
  proof
    assume le: "count_list (questionIds d) q \<le> 1"
    show "count_list (questionIds d1) q = 1"
    proof (cases "q \<in> set (questionIds d)")
      case True
      then have "count_list (questionIds d) q \<noteq> 0" by (simp add: count_list_0_iff)
      with le True show ?thesis by (simp add: d1_def)
    next
      case False
      then show ?thesis by (simp add: d1_def count_list_0_iff)
    qed
  qed
  have 5: "addQuestionToPIR t2 p q fs1 =
      (Inr (), fs1\<lparr>pirs_col := (pirs_col fs1)(p \<mapsto> d1\<lparr>updatedAt := t2\<rparr>)\<rparr>)"
    using addQuestionToPIR_stored[OF n 2, of t2 q] 3 by simp
  have 6: "\<exists>fs2 d2. addQuestionToPIR t2 p q fs1 = (Inr (), fs2) \<and> pirs_col fs2 p = Some d2
                 \<and> questionIds d2 = questionIds d1"
    unfolding 5 by simp
  show "\<exists>fs1 d1. addQuestionToPIR t1 p q fs = (Inr (), fs1)
           \<and> fs1 = fs\<lparr>pirs_col := (pirs_col fs)(p \<mapsto> d1)\<rparr>
           \<and> d1 = d\<lparr>questionIds := (if q \<in> set (questionIds d) then questionIds d
                                     else questionIds d @ [q]),
                     updatedAt := t1\<rparr>
           \<and> q \<in> set (questionIds d1)
           \<and> (count_list (questionIds d) q \<le> 1 \<longrightarrow> count_list (questionIds d1) q = 1)
           \<and> (\<exists>fs2 d2. addQuestionToPIR t2 p q fs1 = (Inr (), fs2) \<and> pirs_col fs2 p = Some d2
                 \<and> questionIds d2 = questionIds d1)"
    apply (rule exI[of _ fs1], rule exI[of _ d1])
    using 1 3 4 6 fs1_def d1_def by blast
qed

text \<open>Creating the question \<open>q1\<close>, and registering it with the PIR \<open>p1\<close> twice.\<close>

theorem C5_registration_is_separate_witness:
  "createQuestion ''q1'' 3 4 ex_question ex_store =
     (Inr (''q1'', ex_question\<lparr>QuestionData.createdAt := 3, QuestionData.updatedAt := 3\<rparr>),
      ex_store\<lparr>questions_col := (questions_col ex_store)(''q1'' \<mapsto>
            ex_question\<lparr>QuestionData.createdAt := 4, QuestionData.updatedAt := 4\<rparr>)\<rparr>)
   \<and> (\<exists>fs1 d1. addQuestionToPIR 5 ''p1'' ''q1'' ex_store = (Inr (), fs1)
      \<and> pirs_col fs1 ''p1'' = Some d1
      \<and> questionIds d1 = [''q1'']
      \<and> count_list (questionIds d1) ''q1'' = 1
      \<and> (\<exists>fs2 d2. addQuestionToPIR 6 ''p1'' ''q1'' fs1 = (Inr (), fs2) \<and> pirs_col fs2 ''p1'' = Some d2
            \<and> questionIds d2 = questionIds d1))"
proof -
  note t = C5_registration_is_separate[of "''q1''" 3 4 ex_question ex_store "''p1''" ex_pir 5 "''q1''" 6]
  have stored: "''p1'' \<noteq> [] \<and> pirs_col ex_store ''p1'' = Some ex_pir"
    by (simp add: ex_store_def)
  have fresh: "count_list (questionIds ex_pir) ''q1'' \<le> 1"
    by (simp add: ex_pir_def)
  have empty: "questionIds ex_pir = []"
    by (simp add: ex_pir_def)
  from t[THEN conjunct2, THEN conjunct2, THEN mp, OF stored]
  obtain fs1 d1 where r: "addQuestionToPIR 5 ''p1'' ''q1'' ex_store = (Inr (), fs1)"
    and f: "fs1 = ex_store\<lparr>pirs_col := (pirs_col ex_store)(''p1'' \<mapsto> d1)\<rparr>"
    and d: "d1 = ex_pir\<lparr>questionIds := (if ''q1'' \<in> set (questionIds ex_pir) then questionIds ex_pir
                                     else questionIds ex_pir @ [''q1'']),
                     updatedAt := 5\<rparr>"
    and c: "count_list (questionIds ex_pir) ''q1'' \<le> 1 \<longrightarrow> count_list (questionIds d1) ''q1'' = 1"
    and again: "\<exists>fs2 d2. addQuestionToPIR 6 ''p1'' ''q1'' fs1 = (Inr (), fs2)
                  \<and> pirs_col fs2 ''p1'' = Some d2 \<and> questionIds d2 = questionIds d1"
    by blast
  have s1: "pirs_col fs1 ''p1'' = Some d1" by (simp add: f)
  have s2: "questionIds d1 = [''q1'']" by (simp add: d empty)
  from c fresh have s3: "count_list (questionIds d1) ''q1'' = 1" by simp
  from t[THEN conjunct1] r s1 s2 s3 again show ?thesis by blast
qed

text \<open>
  The claim as stated fails: after creating a question whose \<open>pirId\<close> is \<open>p1\<close>, the
  question is stored and the \<open>questionIds\<close> of \<open>p1\<close> is still empty.
\<close>

theorem C5_counterexample:
  "pirId ex_question = ''p1''
   \<and> fst (createQuestion ''q1'' 3 4 ex_question ex_store) = Inr (''q1'', ex_question)
   \<and> questions_col (snd (createQuestion ''q1'' 3 4 ex_question ex_store)) ''q1'' =
       Some (ex_question\<lparr>QuestionData.createdAt := 4, QuestionData.updatedAt := 4\<rparr>)
   \<and> map_option questionIds (pirs_col (snd (createQuestion ''q1'' 3 4 ex_question ex_store)) ''p1'')
       = Some []"
  by (simp add: createQuestion_def ex_question_def ex_store_def ex_pir_def)

text \<open>
  Claim C6 at a concrete input. The PIR \<open>p1\<close>, with reviewer \<open>u_rev\<close> assigned, changes
  from REQUESTED to SUBMITTED in a store that holds an admin: the recipients of the
  call, and of the message sent, are the reviewer, the requester and the admin, not the
  reviewer and the requester alone.
\<close>

theorem C6_submitted_recipients_include_admins:
  "(case onPIRStatusChange ex_store ''p1''
           (ex_pir\<lparr>status := REQUESTED, reviewerId := Some ''u_rev''\<rparr>)
           (ex_pir\<lparr>status := SUBMITTED, reviewerId := Some ''u_rev''\<rparr>) of
      Inl e \<Rightarrow> False
    | Inr None \<Rightarrow> False
    | Inr (Some params) \<Rightarrow>
        toEmails params = [''vera@stacksio.com'', ''rita@stacksio.com'', ''admin@stacksio.com'']
        \<and> sendPIRStatusUpdateEmail params =
            Some [''vera@stacksio.com'', ''rita@stacksio.com'', ''admin@stacksio.com''])"
  by (simp add: onPIRStatusChange_def getUser_def getAssignedUser_def adminEmails_def
      filterBoolean_def emailParams_def sendPIRStatusUpdateEmail_def ex_store_def ex_pir_def
      ex_admin_def ex_requester_def ex_responder_def ex_reviewer_def)

text \<open>The other half of the claim holds: without a resolvable reviewer no mail is sent
  on entering SUBMITTED.\<close>

lemma onPIRStatusChange_submitted_without_reviewer:
  assumes "status beforeData \<noteq> SUBMITTED" and "status afterData = SUBMITTED"
    and "requesterId afterData \<noteq> []"
    and "getAssignedUser fs (reviewerId afterData) = None"
  shows "onPIRStatusChange fs docId beforeData afterData = Inr None"
  using assms by (simp add: onPIRStatusChange_def getUser_def)

section \<open>Claims about attachments\<close>

text \<open>
  Claim C7. \<open>uploadAttachment\<close> writes the blob before it creates the metadata record:
  on success the calls are \<open>uploadBytes\<close>, \<open>getDownloadURL\<close>, \<open>addDoc\<close>, in this
  order. When the blob write fails, or the resolution of the download URL fails, the
  error is returned to the caller, no \<open>addDoc\<close> is issued and the entity store is
  unchanged.
\<close>

theorem C7_blob_write_precedes_record:
  "(uploadBytesAnswer env = Some e \<longrightarrow>
      fst (uploadAttachment env file uploader parent pt b) = Inl e
      \<and> db (snd (uploadAttachment env file uploader parent pt b)) = db b
      \<and> calls (snd (uploadAttachment env file uploader parent pt b)) =
          calls b @ [UploadBytes (uploadPath env file parent pt)])
   \<and> (uploadBytesAnswer env = None \<and> getDownloadURLAnswer env = Inl e \<longrightarrow>
      fst (uploadAttachment env file uploader parent pt b) = Inl e
      \<and> db (snd (uploadAttachment env file uploader parent pt b)) = db b
      \<and> calls (snd (uploadAttachment env file uploader parent pt b)) =
          calls b @ [UploadBytes (uploadPath env file parent pt),
                     GetDownloadURL (uploadPath env file parent pt)])
   \<and> (uploadBytesAnswer env = None \<and> getDownloadURLAnswer env = Inr url \<longrightarrow>
      (\<exists>a. fst (uploadAttachment env file uploader parent pt b) = Inr (generatedId env, a)
         \<and> downloadUrl a = url)
      \<and> attachments_col (db (snd (uploadAttachment env file uploader parent pt b)))
           (generatedId env) \<noteq> None
      \<and> calls (snd (uploadAttachment env file uploader parent pt b)) =
          calls b @ [UploadBytes (uploadPath env file parent pt),
                     GetDownloadURL (uploadPath env file parent pt),
                     AddDoc (generatedId env)])"
  by (simp add: uploadAttachment_def Let_def)

text \<open>A rejected blob write, a rejected URL resolution, and a successful upload.\<close>

theorem C7_blob_write_precedes_record_witness:
  "fst (uploadAttachment (ex_upload_env (Some (Error ''storage/unauthorized'')) (Inr ''u''))
          ex_file ''u_req'' ''p1'' ParentPIR ex_backend) = Inl (Error ''storage/unauthorized'')
   \<and> db (snd (uploadAttachment (ex_upload_env (Some (Error ''storage/unauthorized'')) (Inr ''u''))
          ex_file ''u_req'' ''p1'' ParentPIR ex_backend)) = ex_store
   \<and> fst (uploadAttachment (ex_upload_env None (Inl (Error ''storage/unknown'')))
          ex_file ''u_req'' ''p1'' ParentPIR ex_backend) = Inl (Error ''storage/unknown'')
   \<and> calls (snd (uploadAttachment (ex_upload_env None (Inr ''https://blobs/2''))
          ex_file ''u_req'' ''p1'' ParentPIR ex_backend)) =
       [UploadBytes ''attachments/pir/p1/1700_sheet.pdf'',
        GetDownloadURL ''attachments/pir/p1/1700_sheet.pdf'', AddDoc ''a2'']"
proof -
  have p: "uploadPath (ex_upload_env x y) ex_file ''p1'' ParentPIR = ''attachments/pir/p1/1700_sheet.pdf''" for x y
    unfolding uploadPath_def ex_upload_env_def ex_file_def STORAGE_PATH_def parentTypeString_def
    by code_simp
  show ?thesis
  using C7_blob_write_precedes_record[of "ex_upload_env (Some (Error ''storage/unauthorized'')) (Inr ''u'')"
      "Error ''storage/unauthorized''" ex_file "''u_req''" "''p1''" ParentPIR ex_backend]
    C7_blob_write_precedes_record[of "ex_upload_env None (Inl (Error ''storage/unknown''))"
      "Error ''storage/unknown''" ex_file "''u_req''" "''p1''" ParentPIR ex_backend]
    C7_blob_write_precedes_record[of "ex_upload_env None (Inr ''https://blobs/2'')"
      _ ex_file "''u_req''" "''p1''" ParentPIR ex_backend "''https://blobs/2''"]
  by (simp add: p) (simp add: ex_upload_env_def ex_backend_def)
qed



section \<open>Claims about tags\<close>

lemma string_includes_self: "string_includes s s"
  by (simp add: string_includes_def)

lemma find_first_match:
  assumes "x \<in> set xs" and "P x"
  shows "\<exists>y. find P xs = Some y \<and> y \<in> set xs \<and> P y"
  using assms(1)
proof (induction xs)
  case Nil
  then show ?case by simp
next
  case (Cons a xs)
  show ?case
  proof (cases "P a")
    case True
    then show ?thesis by simp
  next
    case False
    with Cons.prems assms(2) have "x \<in> set xs" by auto
    from Cons.IH[OF this] False show ?thesis by auto
  qed
qed

lemma find_only_match:
  assumes "x \<in> set xs" and "P x" and "\<And>y. y \<in> set xs \<Longrightarrow> P y \<Longrightarrow> y = x"
  shows "find P xs = Some x"
proof -
  from find_first_match[of x xs P] assms(1,2)
  obtain y where y: "find P xs = Some y" "y \<in> set xs" "P y" by blast
  from assms(3)[OF y(2,3)] y(1) show ?thesis by simp
qed

lemma set_getAllTags: "set (getAllTags fs) = set (tags_col fs)"
  unfolding getAllTags_def by (rule set_sort)

lemma set_searchTagsByName:
  "set (searchTagsByName toLowerCase searchTerm fs) =
     {t \<in> set (tags_col fs).
        string_includes (toLowerCase (name (snd t))) (toLowerCase searchTerm)}"
  unfolding searchTagsByName_def set_filter set_getAllTags ..

lemma update_member: "(k, v) \<in> set (AList.update k v al)"
  by (induction al) auto

lemma update_subset: "set (AList.update k v al) \<subseteq> insert (k, v) (set al)"
  by (induction al) auto

lemma createTag_existing:
  assumes "t \<in> set (tags_col fs)" and "toLowerCase (name (snd t)) = toLowerCase (name tag)"
  shows "\<exists>r. r \<in> set (tags_col fs) \<and> toLowerCase (name (snd r)) = toLowerCase (name tag)
            \<and> createTag toLowerCase newId tag fs = (Inr r, fs)"
proof -
  have "t \<in> set (searchTagsByName toLowerCase (name tag) fs)"
    using assms by (simp add: set_searchTagsByName string_includes_self)
  from find_first_match[of t "searchTagsByName toLowerCase (name tag) fs"
      "\<lambda>t. toLowerCase (name (snd t)) = toLowerCase (name tag)"] this assms(2)
  obtain r where "find (\<lambda>t. toLowerCase (name (snd t)) = toLowerCase (name tag))
        (searchTagsByName toLowerCase (name tag) fs) = Some r"
    and "r \<in> set (searchTagsByName toLowerCase (name tag) fs)"
    and "toLowerCase (name (snd r)) = toLowerCase (name tag)"
    by blast
  note found = this
  from found have "r \<in> set (tags_col fs)" and "createTag toLowerCase newId tag fs = (Inr r, fs)"
    by (simp_all add: createTag_def set_searchTagsByName)
  with \<open>toLowerCase (name (snd r)) = toLowerCase (name tag)\<close> show ?thesis
    by blast
qed

lemma createTag_new:
  assumes "\<And>t. t \<in> set (tags_col fs) \<Longrightarrow> toLowerCase (name (snd t)) \<noteq> toLowerCase (name tag)"
  shows "createTag toLowerCase newId tag fs =
           (Inr (newId, tag), fs\<lparr>tags_col := AList.update newId tag (tags_col fs)\<rparr>)"
proof -
  have "find (\<lambda>t. toLowerCase (name (snd t)) = toLowerCase (name tag))
          (searchTagsByName toLowerCase (name tag) fs) = None"
    using assms by (auto simp: find_None_iff set_searchTagsByName)
  then show ?thesis by (simp add: createTag_def)
qed

lemma createTag_again:
  assumes none: "\<And>t. t \<in> set (tags_col fs) \<Longrightarrow> toLowerCase (name (snd t)) \<noteq> toLowerCase (name tag)"
    and same: "toLowerCase (name tag2) = toLowerCase (name tag)"
  shows "createTag toLowerCase newId2 tag2 (fs\<lparr>tags_col := AList.update newId tag (tags_col fs)\<rparr>) =
           (Inr (newId, tag), fs\<lparr>tags_col := AList.update newId tag (tags_col fs)\<rparr>)"
proof -
  let ?fs1 = "fs\<lparr>tags_col := AList.update newId tag (tags_col fs)\<rparr>"
  let ?P = "\<lambda>t. toLowerCase (name (snd t)) = toLowerCase (name tag2)"
  have in1: "(newId, tag) \<in> set (searchTagsByName toLowerCase (name tag2) ?fs1)"
    using same by (simp add: set_searchTagsByName update_member string_includes_self)
  have only: "y = (newId, tag)" if "y \<in> set (searchTagsByName toLowerCase (name tag2) ?fs1)" and "?P y" for y
  proof -
    from that(1) have "y \<in> insert (newId, tag) (set (tags_col fs))"
      using update_subset[of newId tag "tags_col fs"] by (auto simp: set_searchTagsByName)
    with that(2) same none[of y] show ?thesis by auto
  qed
  have "find ?P (searchTagsByName toLowerCase (name tag2) ?fs1) = Some (newId, tag)"
    by (rule find_only_match[OF in1]) (use same only in auto)
  then show ?thesis by (simp add: createTag_def)
qed

text \<open>
  Claim C9. \<open>createTag\<close> is idempotent under case-insensitive name match, for every
  lower-casing \<open>toLowerCase\<close>. If the name of the input equals, ignoring case, the name
  of a tag in the collection, the call returns a tag of the collection with such a name
  (the tag, when there is one only) and the store is unchanged. If no tag matches, the
  tag is created, and every later \<open>createTag\<close> whose name equals the created one
  ignoring case, in any casing and with any generated id, returns the tag first created
  and changes nothing.
\<close>

theorem C9_createTag_idempotent:
  "((\<exists>t \<in> set (tags_col fs). toLowerCase (name (snd t)) = toLowerCase (name tag)) \<longrightarrow>
      (\<exists>r \<in> set (tags_col fs). toLowerCase (name (snd r)) = toLowerCase (name tag)
          \<and> createTag toLowerCase newId tag fs = (Inr r, fs)))
   \<and> ((\<forall>t \<in> set (tags_col fs). toLowerCase (name (snd t)) \<noteq> toLowerCase (name tag))
        \<and> toLowerCase (name tag2) = toLowerCase (name tag) \<longrightarrow>
      createTag toLowerCase newId tag fs =
        (Inr (newId, tag), fs\<lparr>tags_col := AList.update newId tag (tags_col fs)\<rparr>)
      \<and> createTag toLowerCase newId2 tag2 (snd (createTag toLowerCase newId tag fs)) =
        (Inr (newId, tag), snd (createTag toLowerCase newId tag fs)))"
proof (intro conjI impI)
  assume "\<exists>t \<in> set (tags_col fs). toLowerCase (name (snd t)) = toLowerCase (name tag)"
  then obtain t where "t \<in> set (tags_col fs)"
    and "toLowerCase (name (snd t)) = toLowerCase (name tag)" ..
  from createTag_existing[OF this, of newId]
  obtain r where "r \<in> set (tags_col fs)"
    and "toLowerCase (name (snd r)) = toLowerCase (name tag) \<and> createTag toLowerCase newId tag fs = (Inr r, fs)"
    by (elim exE conjE) (rule that, assumption, simp)
  then show "\<exists>r \<in> set (tags_col fs). toLowerCase (name (snd r)) = toLowerCase (name tag)
          \<and> createTag toLowerCase newId tag fs = (Inr r, fs)" ..
next
  assume a: "(\<forall>t \<in> set (tags_col fs). toLowerCase (name (snd t)) \<noteq> toLowerCase (name tag))
        \<and> toLowerCase (name tag2) = toLowerCase (name tag)"
  then have none: "toLowerCase (name (snd t)) \<noteq> toLowerCase (name tag)"
    if "t \<in> set (tags_col fs)" for t
    using that by simp
  from a have same: "toLowerCase (name tag2) = toLowerCase (name tag)" ..
  show new: "createTag toLowerCase newId tag fs =
        (Inr (newId, tag), fs\<lparr>tags_col := AList.update newId tag (tags_col fs)\<rparr>)"
    by (rule createTag_new) (rule none)
  show "createTag toLowerCase newId2 tag2 (snd (createTag toLowerCase newId tag fs)) =
        (Inr (newId, tag), snd (createTag toLowerCase newId tag fs))"
    unfolding new snd_conv by (rule createTag_again[OF none same])
qed

text \<open>\<open>URGENT\<close> meets the stored \<open>Urgent\<close>; \<open>review\<close> after creating \<open>Review\<close>.\<close>

theorem C9_createTag_idempotent_witness:
  "createTag asciiLowerCase ''t2'' \<lparr>name = ''URGENT'', tagCategory = None, color = None\<rparr> ex_store =
     (Inr (''t1'', ex_tag), ex_store)
   \<and> createTag asciiLowerCase ''t3'' \<lparr>name = ''review'', tagCategory = None, color = None\<rparr>
        (snd (createTag asciiLowerCase ''t2''
                \<lparr>name = ''Review'', tagCategory = None, color = None\<rparr> ex_store)) =
     (Inr (''t2'', \<lparr>name = ''Review'', tagCategory = None, color = None\<rparr>),
      snd (createTag asciiLowerCase ''t2''
             \<lparr>name = ''Review'', tagCategory = None, color = None\<rparr> ex_store))"
proof -
  define shout where "shout = \<lparr>name = ''URGENT'', tagCategory = None, color = None\<rparr>"
  define rv where "rv = \<lparr>name = ''Review'', tagCategory = None, color = None\<rparr>"
  define rv2 where "rv2 = \<lparr>name = ''review'', tagCategory = None, color = None\<rparr>"
  have tg: "set (tags_col ex_store) = {(''t1'', ex_tag)}"
    by (simp add: ex_store_def)
  have l1: "asciiLowerCase (name ex_tag) = asciiLowerCase (name shout)"
    by (simp add: asciiLowerCase_def asciiLowerChar_def ex_tag_def shout_def)
  have l2: "asciiLowerCase (name ex_tag) \<noteq> asciiLowerCase (name rv)"
    by (simp add: asciiLowerCase_def asciiLowerChar_def ex_tag_def rv_def)
  have l3: "asciiLowerCase (name rv2) = asciiLowerCase (name rv)"
    by (simp add: asciiLowerCase_def asciiLowerChar_def rv_def rv2_def)
  have p1: "\<exists>t \<in> set (tags_col ex_store).
              asciiLowerCase (name (snd t)) = asciiLowerCase (name shout)"
    using l1 by (simp add: tg)
  have "\<exists>r \<in> set (tags_col ex_store). asciiLowerCase (name (snd r)) = asciiLowerCase (name shout)
          \<and> createTag asciiLowerCase ''t2'' shout ex_store = (Inr r, ex_store)"
    by (rule C9_createTag_idempotent[of ex_store asciiLowerCase shout "''t2''" shout "''t2''",
          THEN conjunct1, THEN mp, OF p1])
  then have e1: "createTag asciiLowerCase ''t2'' shout ex_store = (Inr (''t1'', ex_tag), ex_store)"
    by (simp add: tg)
  have p2: "(\<forall>t \<in> set (tags_col ex_store).
               asciiLowerCase (name (snd t)) \<noteq> asciiLowerCase (name rv))
      \<and> asciiLowerCase (name rv2) = asciiLowerCase (name rv)"
    using l2 l3 by (simp add: tg)
  have e2: "createTag asciiLowerCase ''t3'' rv2 (snd (createTag asciiLowerCase ''t2'' rv ex_store)) =
      (Inr (''t2'', rv), snd (createTag asciiLowerCase ''t2'' rv ex_store))"
    by (rule C9_createTag_idempotent[of ex_store asciiLowerCase rv "''t2''" rv2 "''t3''",
          THEN conjunct2, THEN mp, OF p2, THEN conjunct2])
  from e1 e2 show ?thesis
    unfolding shout_def rv_def rv2_def by (rule conjI)
qed

section \<open>Claims about the signed-in user\<close>

text \<open>
  Claim C10. When the authenticated user has no document in \<open>users\<close> (and the store
  answers), \<open>loadUserData\<close> creates one with role REQUESTER, with \<open>email\<close> and
  \<open>displayName\<close> taken from the Firebase user and the empty string where they are
  absent, makes it the current user and marks the session authenticated.
\<close>

theorem C10_default_user_document:
  assumes "map_of (users_col (firestore s)) (uid fu) = None"
  shows "currentUser (loadUserData (Some fu) None s) =
           Some \<lparr>user_id = uid fu, email = (case fbEmail fu of None \<Rightarrow> [] | Some e \<Rightarrow> e),
                 displayName = (case fbDisplayName fu of None \<Rightarrow> [] | Some n \<Rightarrow> n),
                 role = REQUESTER, department = None\<rparr>
       \<and> map_of (users_col (firestore (loadUserData (Some fu) None s))) (uid fu) =
           currentUser (loadUserData (Some fu) None s)
       \<and> isAuthenticated (loadUserData (Some fu) None s)
       \<and> \<not> isLoading (loadUserData (Some fu) None s)
       \<and> authError (loadUserData (Some fu) None s) = None"
  using assms by (simp add: loadUserData_def Let_def orEmpty_def update_Some_unfold)

text \<open>A new Firebase user with an e-mail address and no display name.\<close>

theorem C10_default_user_document_witness:
  "currentUser (loadUserData (Some ex_firebase_user) None (ex_state ex_admin DRAFT None)) =
     Some \<lparr>user_id = ''u_new'', email = ''nora@stacksio.com'', displayName = [],
           role = REQUESTER, department = None\<rparr>
   \<and> isAuthenticated (loadUserData (Some ex_firebase_user) None (ex_state ex_admin DRAFT None))"
  using C10_default_user_document[of "ex_state ex_admin DRAFT None" ex_firebase_user]
  by (simp add: ex_state_def ex_store_in_def ex_store_def ex_firebase_user_def)

end
